theory Spec2Isabelle
  imports Main "HOL-Library.AList"
begin

section \<open>Strings and JavaScript values\<close>

text \<open>
  Texts are \<^typ>\<open>string\<close> (lists of 8-bit characters); the model covers ASCII text.
  The two characters that cannot be written inside a string literal get names.
\<close>

definition dquote :: char where
  "dquote = CHR 0x22"

definition backslash :: char where
  "backslash = CHR 0x5C"

text \<open>The ASCII members of the class \<^verbatim>\<open>\s\<close>, which is also what \<^verbatim>\<open>trim()\<close> strips.\<close>

definition isSpace :: "char \<Rightarrow> bool" where
  "isSpace c = (c = CHR '' '' \<or> c = CHR 0x09 \<or> c = CHR 0x0A \<or> c = CHR 0x0B
                \<or> c = CHR 0x0C \<or> c = CHR 0x0D)"

definition trim :: "string \<Rightarrow> string" where
  "trim s = rev (dropWhile isSpace (rev (dropWhile isSpace s)))"

text \<open>\<^verbatim>\<open>s.slice(from, to)\<close> for \<open>0 \<le> from\<close>, \<open>0 \<le> to\<close>.\<close>

definition slice :: "'a list \<Rightarrow> nat \<Rightarrow> nat \<Rightarrow> 'a list" where
  "slice s from to = take (to - from) (drop from s)"

definition digitChar :: "nat \<Rightarrow> char" where
  "digitChar d = char_of (of_char (CHR ''0'') + d)"

fun showNatFuel :: "nat \<Rightarrow> nat \<Rightarrow> string" where
  "showNatFuel 0 n = [digitChar (n mod 10)]"
| "showNatFuel (Suc f) n =
     (if n < 10 then [digitChar n] else showNatFuel f (n div 10) @ [digitChar (n mod 10)])"

text \<open>Decimal rendering of a natural number (\<open>n\<close> has at most \<open>n + 1\<close> digits).\<close>

definition showNat :: "nat \<Rightarrow> string" where
  "showNat n = showNatFuel n n"

definition showInt :: "int \<Rightarrow> string" where
  "showInt i = (if i < 0 then CHR ''-'' # showNat (nat (- i)) else showNat (nat i))"

text \<open>
  Argument values of a tool call, as \<^verbatim>\<open>JSON.parse\<close> delivers them, and
  \<^verbatim>\<open>undefined\<close> for an absent key. Numbers are modelled as integers; arrays are
  left out.
\<close>

datatype jsval = JUndef | JNull | JBool bool | JNum int | JStr string
  | JObj "(string \<times> jsval) list"

fun truthy :: "jsval \<Rightarrow> bool" where
  "truthy JUndef = False"
| "truthy JNull = False"
| "truthy (JBool b) = b"
| "truthy (JNum n) = (n \<noteq> 0)"
| "truthy (JStr s) = (s \<noteq> [])"
| "truthy (JObj kvs) = True"

text \<open>\<^verbatim>\<open>String(v)\<close>\<close>

fun jsString :: "jsval \<Rightarrow> string" where
  "jsString JUndef = ''undefined''"
| "jsString JNull = ''null''"
| "jsString (JBool b) = (if b then ''true'' else ''false'')"
| "jsString (JNum n) = showInt n"
| "jsString (JStr s) = s"
| "jsString (JObj kvs) = ''[object Object]''"

definition isDigit :: "char \<Rightarrow> bool" where
  "isDigit c = (let n = (of_char c :: nat) in 48 \<le> n \<and> n \<le> 57)"

definition parseDigits :: "string \<Rightarrow> int option" where
  "parseDigits ds =
     (if ds \<noteq> [] \<and> list_all isDigit ds
      then Some (foldl (\<lambda>a c. 10 * a + (int (of_char c) - 48)) 0 ds)
      else None)"

text \<open>
  \<^verbatim>\<open>Number(v)\<close>, with \<open>None\<close> for \<^verbatim>\<open>NaN\<close>. Of the numeric strings only
  the signed decimal integers are modelled.
\<close>

fun jsNumber :: "jsval \<Rightarrow> int option" where
  "jsNumber JUndef = None"
| "jsNumber JNull = Some 0"
| "jsNumber (JBool b) = Some (if b then 1 else 0)"
| "jsNumber (JNum n) = Some n"
| "jsNumber (JStr s) =
     (let t = trim s in
      if t = [] then Some 0
      else if hd t = CHR ''-'' then map_option uminus (parseDigits (tl t))
      else if hd t = CHR ''+'' then parseDigits (tl t)
      else parseDigits t)"
| "jsNumber (JObj kvs) = None"

text \<open>\<^verbatim>\<open>String(v || '')\<close>\<close>

definition strOrEmpty :: "jsval \<Rightarrow> string" where
  "strOrEmpty v = (if truthy v then jsString v else [])"

type_synonym js_args = "(string \<times> jsval) list"

text \<open>\<^verbatim>\<open>args.key\<close>: the value stored under the key, \<^verbatim>\<open>undefined\<close> when absent.\<close>

definition getArg :: "js_args \<Rightarrow> string \<Rightarrow> jsval" where
  "getArg args k = (case map_of args k of None \<Rightarrow> JUndef | Some v \<Rightarrow> v)"

record tool_call =
  tool :: string
  args :: js_args


section \<open>Tool-call normalisation (chat.js)\<close>

definition isAlnum :: "char \<Rightarrow> bool" where
  "isAlnum c = (let n = (of_char c :: nat) in
       (97 \<le> n \<and> n \<le> 122) \<or> (65 \<le> n \<and> n \<le> 90) \<or> (48 \<le> n \<and> n \<le> 57))"

definition isLineTerminator :: "char \<Rightarrow> bool" where
  "isLineTerminator c = (c = CHR 0x0A \<or> c = CHR 0x0D)"

text \<open>
  The regular expression literal \<^verbatim>\<open>/\\.([a-z0-9]{1,6})$/i\<close> of
  \<^verbatim>\<open>isLikelyFileQuery\<close>. In a regular expression literal \<^verbatim>\<open>\\\<close> matches one
  backslash and the unescaped \<^verbatim>\<open>.\<close> matches any character but a line terminator; so
  the expression matches when the text ends with a backslash, one more character and
  then one to six letters or digits.
\<close>

definition extRegexTest :: "string \<Rightarrow> bool" where
  "extRegexTest raw =
     list_ex (\<lambda>k. k + 2 \<le> length raw \<and>
        (let t = drop (length raw - (k + 2)) raw
         in hd t = backslash \<and> \<not> isLineTerminator (hd (tl t)) \<and> list_all isAlnum (drop 2 t)))
       [1 ..< 7]"

definition isLikelyFileQuery :: "string \<Rightarrow> bool" where
  "isLikelyFileQuery query =
     (let raw = trim query in
      if raw = [] then False
      else if list_ex isSpace raw then False
      else if CHR ''/'' \<in> set raw \<or> backslash \<in> set raw then True
      else extRegexTest raw)"

text \<open>
  \<^verbatim>\<open>normalizeToolCall\<close>, for a call whose \<^verbatim>\<open>tool\<close> is a string and whose
  \<^verbatim>\<open>args\<close> is an object. \<^verbatim>\<open>{ ...args, query }\<close> overwrites the key in place or
  appends it, as \<^const>\<open>AList.update\<close> does.
\<close>

definition normalizeToolCall :: "tool_call \<Rightarrow> tool_call" where
  "normalizeToolCall call =
     (if tool call = ''search'' then
        (let query = trim (strOrEmpty (getArg (args call) ''query'')) in
         if isLikelyFileQuery query
         then \<lparr>tool = ''locate_file'', args = AList.update ''query'' (JStr query) (args call)\<rparr>
         else \<lparr>tool = tool call, args = args call\<rparr>)
      else \<lparr>tool = tool call, args = args call\<rparr>)"


section \<open>Diff engine (agentTools.js)\<close>

definition newline :: char where
  "newline = CHR 0x0A"

definition carriageReturn :: char where
  "carriageReturn = CHR 0x0D"

text \<open>
  \<^verbatim>\<open>src.split(/\r?\n/)\<close>: a line feed, with a carriage return right before it when
  there is one, ends a line.
\<close>

fun splitRegexNewline :: "string \<Rightarrow> string list" where
  "splitRegexNewline [] = [[]]"
| "splitRegexNewline (c # cs) =
     (if c = newline then [] # splitRegexNewline cs
      else if c = carriageReturn \<and> cs \<noteq> [] \<and> hd cs = newline then [] # splitRegexNewline (tl cs)
      else (case splitRegexNewline cs of
              [] \<Rightarrow> [[c]]
            | l # ls \<Rightarrow> (c # l) # ls))"

definition splitLines :: "string \<Rightarrow> string list" where
  "splitLines text = (if text = [] then [] else splitRegexNewline text)"

text \<open>\<^verbatim>\<open>lines.join('\n')\<close>\<close>

fun joinLines :: "string list \<Rightarrow> string" where
  "joinLines [] = []"
| "joinLines [l] = l"
| "joinLines (l # ls) = l @ newline # joinLines ls"

definition buildSimpleDiff :: "string \<Rightarrow> string \<Rightarrow> string" where
  "buildSimpleDiff oldText newText =
     (let oldLines = splitLines oldText;
          newLines = splitLines newText;
          diffLines = (if oldText \<noteq> [] then map ((#) (CHR ''-'')) oldLines else [])
                    @ (if newText \<noteq> [] then map ((#) (CHR ''+'')) newLines else [])
      in if diffLines = [] then [] else joinLines diffLines)"

text \<open>
  The options object of \<^verbatim>\<open>buildUnifiedDiff\<close>: each field is \<open>None\<close> when the key
  is absent or not a finite number.
\<close>

record diff_options =
  optContextLines :: "int option"
  optMaxCells :: "int option"
  optMaxDiffLines :: "int option"

definition contextLinesOf :: "diff_options \<Rightarrow> nat" where
  "contextLinesOf opts = (case optContextLines opts of Some v \<Rightarrow> nat (max 0 v) | None \<Rightarrow> 3)"

definition maxCellsOf :: "diff_options \<Rightarrow> nat" where
  "maxCellsOf opts = (case optMaxCells opts of Some v \<Rightarrow> nat (max 1000 v) | None \<Rightarrow> 200000)"

definition maxDiffLinesOf :: "diff_options \<Rightarrow> nat" where
  "maxDiffLinesOf opts = (case optMaxDiffLines opts of Some v \<Rightarrow> nat (max 50 v) | None \<Rightarrow> 400)"

datatype op_type = Context | Add | Del

record diff_op =
  opType :: op_type
  line :: string

record diff_entry = diff_op +
  oldPos :: nat
  newPos :: nat

text \<open>The first loop: the number of leading lines the two texts share.\<close>

fun commonPrefix :: "string list \<Rightarrow> string list \<Rightarrow> nat" where
  "commonPrefix (x # xs) (y # ys) = (if x = y then Suc (commonPrefix xs ys) else 0)"
| "commonPrefix _ _ = 0"

text \<open>
  The second loop walks \<^verbatim>\<open>oldSuffix\<close> and \<^verbatim>\<open>newSuffix\<close> down from the last lines
  while both stay at or above \<^verbatim>\<open>prefix\<close> and the lines agree: it counts the trailing
  lines shared by what is left of the two texts after the prefix.
\<close>

definition commonSuffix :: "string list \<Rightarrow> string list \<Rightarrow> nat \<Rightarrow> nat" where
  "commonSuffix oldLines newLines prefix =
     commonPrefix (rev (drop prefix oldLines)) (rev (drop prefix newLines))"

text \<open>
  One row of the table, filled from the last column to the first:
  \<open>nxt\<close> is row \<open>i + 1\<close> from column \<open>j\<close> on, the result is row \<open>i\<close> from column \<open>j\<close> on.
\<close>

fun dpRow :: "string \<Rightarrow> string list \<Rightarrow> nat list \<Rightarrow> nat list" where
  "dpRow a [] nxt = [0]"
| "dpRow a (b # bs) nxt =
     (let rest = dpRow a bs (tl nxt)
      in (if a = b then hd (tl nxt) + 1 else max (hd nxt) (hd rest)) # rest)"

text \<open>The table \<^verbatim>\<open>dp\<close>, rows \<open>0 .. n\<close>, filled from the last row to the first.\<close>

fun dpTable :: "string list \<Rightarrow> string list \<Rightarrow> nat list list" where
  "dpTable [] newMid = [replicate (length newMid + 1) 0]"
| "dpTable (a # as) newMid = (let t = dpTable as newMid in dpRow a newMid (hd t) # t)"

definition mkOp :: "op_type \<Rightarrow> string \<Rightarrow> diff_op" where
  "mkOp t l = \<lparr>opType = t, line = l\<rparr>"

text \<open>The backtracking loop and the two loops that flush what is left of either side.\<close>

function backtrack :: "nat list list \<Rightarrow> string list \<Rightarrow> string list \<Rightarrow> nat \<Rightarrow> nat \<Rightarrow> diff_op list" where
  "backtrack dp oldMid newMid i j =
     (if i < length oldMid \<and> j < length newMid then
        (if oldMid ! i = newMid ! j
         then mkOp Context (oldMid ! i) # backtrack dp oldMid newMid (i + 1) (j + 1)
         else if dp ! (i + 1) ! j \<ge> dp ! i ! (j + 1)
         then mkOp Del (oldMid ! i) # backtrack dp oldMid newMid (i + 1) j
         else mkOp Add (newMid ! j) # backtrack dp oldMid newMid i (j + 1))
      else map (mkOp Del) (drop i oldMid) @ map (mkOp Add) (drop j newMid))"
  by pat_completeness auto
termination
  by (relation "measure (\<lambda>(dp, oldMid, newMid, i, j). (length oldMid - i) + (length newMid - j))") auto

declare backtrack.simps [simp del]

fun annotate :: "diff_op list \<Rightarrow> nat \<Rightarrow> nat \<Rightarrow> diff_entry list" where
  "annotate [] op np = []"
| "annotate (x # xs) op np =
     \<lparr>opType = opType x, line = line x, oldPos = op, newPos = np\<rparr>
       # (case opType x of
            Context \<Rightarrow> annotate xs (op + 1) (np + 1)
          | Del \<Rightarrow> annotate xs (op + 1) np
          | Add \<Rightarrow> annotate xs op (np + 1))"

definition changeIndexes :: "diff_entry list \<Rightarrow> nat list" where
  "changeIndexes entries = filter (\<lambda>idx. opType (entries ! idx) \<noteq> Context) [0 ..< length entries]"

text \<open>The hunk ranges, \<open>(start, end)\<close> inclusive, in the order they are pushed.\<close>

fun buildRanges :: "nat \<Rightarrow> nat \<Rightarrow> nat list \<Rightarrow> (nat \<times> nat) list \<Rightarrow> (nat \<times> nat) list" where
  "buildRanges n ctx [] ranges = ranges"
| "buildRanges n ctx (idx # idxs) ranges =
     (let start = idx - ctx;
          end = min (n - 1) (idx + ctx)
      in if ranges = [] \<or> start > snd (last ranges) + 1
         then buildRanges n ctx idxs (ranges @ [(start, end)])
         else buildRanges n ctx idxs
                (butlast ranges @ [(fst (last ranges), max (snd (last ranges)) end)]))"

definition hunkHeader :: "nat \<Rightarrow> nat \<Rightarrow> nat \<Rightarrow> nat \<Rightarrow> string" where
  "hunkHeader oldStart oldCount newStart newCount =
     ''@@ -'' @ showNat oldStart @ '','' @ showNat oldCount
       @ '' +'' @ showNat newStart @ '','' @ showNat newCount @ '' @@''"

definition entryLine :: "diff_entry \<Rightarrow> string" where
  "entryLine e =
     (case opType e of Context \<Rightarrow> CHR '' '' | Add \<Rightarrow> CHR ''+'' | Del \<Rightarrow> CHR ''-'') # line e"

definition hunkLines :: "diff_entry list \<Rightarrow> nat \<times> nat \<Rightarrow> string list" where
  "hunkLines entries rng =
     (let sl = slice entries (fst rng) (snd rng + 1);
          oldCount = length (filter (\<lambda>e. opType e \<noteq> Add) sl);
          newCount = length (filter (\<lambda>e. opType e \<noteq> Del) sl)
      in hunkHeader (oldPos (hd sl)) oldCount (newPos (hd sl)) newCount # map entryLine sl)"

text \<open>The list \<^verbatim>\<open>entries\<close> of the two line lists, built on the table.\<close>

definition diffEntries :: "string list \<Rightarrow> string list \<Rightarrow> diff_entry list" where
  "diffEntries oldLines newLines =
     (let prefix = commonPrefix oldLines newLines;
          suffix = commonSuffix oldLines newLines prefix;
          oldMid = slice oldLines prefix (length oldLines - suffix);
          newMid = slice newLines prefix (length newLines - suffix);
          dp = dpTable oldMid newMid;
          ops = map (mkOp Context) (take prefix oldLines)
                @ backtrack dp oldMid newMid 0 0
                @ map (mkOp Context) (drop (length oldLines - suffix) oldLines)
      in annotate ops 1 1)"

text \<open>The list \<^verbatim>\<open>diffLines\<close>: every hunk's header and body, before the line budget.\<close>

definition unifiedDiffLines :: "string list \<Rightarrow> string list \<Rightarrow> nat \<Rightarrow> string list" where
  "unifiedDiffLines oldLines newLines contextLines =
     (let entries = diffEntries oldLines newLines;
          ranges = buildRanges (length entries) contextLines (changeIndexes entries) []
      in concat (map (hunkLines entries) ranges))"

definition midCells :: "string list \<Rightarrow> string list \<Rightarrow> nat" where
  "midCells oldLines newLines =
     (let prefix = commonPrefix oldLines newLines;
          suffix = commonSuffix oldLines newLines prefix
      in (length oldLines - suffix - prefix) * (length newLines - suffix - prefix))"

definition buildUnifiedDiff :: "string \<Rightarrow> string \<Rightarrow> diff_options \<Rightarrow> string" where
  "buildUnifiedDiff oldText newText options =
     (let contextLines = contextLinesOf options;
          maxCells = maxCellsOf options;
          maxDiffLines = maxDiffLinesOf options;
          oldLines = splitLines oldText;
          newLines = splitLines newText
      in if oldLines = [] \<and> newLines = [] then []
         else if midCells oldLines newLines > maxCells then buildSimpleDiff oldText newText
         else if changeIndexes (diffEntries oldLines newLines) = [] then []
         else (let diffLines = unifiedDiffLines oldLines newLines contextLines
               in if length diffLines > maxDiffLines
                  then joinLines (take maxDiffLines diffLines @ ['' ...''])
                  else joinLines diffLines))"

definition defaultOptions :: diff_options where
  "defaultOptions = \<lparr>optContextLines = None, optMaxCells = None, optMaxDiffLines = None\<rparr>"

text \<open>\<^verbatim>\<open>buildDiffBlock\<close> asks for three context lines and leaves the other options out.\<close>

definition blockOptions :: diff_options where
  "blockOptions = \<lparr>optContextLines = Some 3, optMaxCells = None, optMaxDiffLines = None\<rparr>"


section \<open>Todo lists (chat.js)\<close>

text \<open>
  A normalised todo item \<^verbatim>\<open>{ id, text, status }\<close>. The field names carry the prefix
  \<open>item\<close> because \<open>id\<close> is a constant of HOL.
\<close>

record todo_item =
  itemId :: string
  itemText :: string
  itemStatus :: string

text \<open>
  What \<^verbatim>\<open>normalizeTodoItem\<close> may be handed: a value that is falsy or not an object,
  or an object, of which only the fields the function reads are kept (\<open>JUndef\<close> for a
  missing one). An array is an object with none of these fields.
\<close>

record raw_todo =
  rawId :: jsval
  rawText :: jsval
  rawTitle :: jsval
  rawDescription :: jsval
  rawStatus :: jsval

datatype raw_item = RawValue jsval | RawObject raw_todo

definition toLowerChar :: "char \<Rightarrow> char" where
  "toLowerChar c = (let n = (of_char c :: nat) in if 65 \<le> n \<and> n \<le> 90 then char_of (n + 32) else c)"

definition toLowerCase :: "string \<Rightarrow> string" where
  "toLowerCase s = map toLowerChar s"

text \<open>\<^verbatim>\<open>a || b\<close> on values.\<close>

definition jsOr :: "jsval \<Rightarrow> jsval \<Rightarrow> jsval" where
  "jsOr a b = (if truthy a then a else b)"

definition defaultTodoId :: "nat \<Rightarrow> string" where
  "defaultTodoId index = ''todo_'' @ showNat (index + 1)"

fun normalizeTodoItem :: "raw_item \<Rightarrow> nat \<Rightarrow> todo_item option" where
  "normalizeTodoItem (RawValue v) index =
     Some \<lparr>itemId = defaultTodoId index, itemText = trim (strOrEmpty v), itemStatus = ''pending''\<rparr>"
| "normalizeTodoItem (RawObject item) index =
     (let text = trim (strOrEmpty (jsOr (rawText item) (jsOr (rawTitle item) (rawDescription item))))
      in if text = [] then None
         else (let statusRaw = toLowerCase (strOrEmpty (rawStatus item));
                   status = (if statusRaw = ''done'' \<or> statusRaw = ''complete''
                             then ''done'' else ''pending'');
                   id = (if truthy (rawId item) then jsString (rawId item) else defaultTodoId index)
               in Some \<lparr>itemId = id, itemText = text, itemStatus = status\<rparr>))"

text \<open>\<^verbatim>\<open>input.map((item, index) => normalizeTodoItem(item, index)).filter(Boolean)\<close>\<close>

fun normalizeFrom :: "nat \<Rightarrow> raw_item list \<Rightarrow> todo_item list" where
  "normalizeFrom index [] = []"
| "normalizeFrom index (item # items) =
     (case normalizeTodoItem item index of
        None \<Rightarrow> normalizeFrom (index + 1) items
      | Some t \<Rightarrow> t # normalizeFrom (index + 1) items)"

definition normalizeTodoList :: "raw_item list \<Rightarrow> todo_item list" where
  "normalizeTodoList input = normalizeFrom 0 input"

text \<open>A stored item, seen again as input of \<^verbatim>\<open>normalizeTodoList\<close>.\<close>

definition asRaw :: "todo_item \<Rightarrow> raw_item" where
  "asRaw t = RawObject \<lparr>rawId = JStr (itemId t), rawText = JStr (itemText t), rawTitle = JUndef,
                         rawDescription = JUndef, rawStatus = JStr (itemStatus t)\<rparr>"

text \<open>
  \<^verbatim>\<open>new Map(list.map((item) => [key(item), item])).get(k)\<close>: of several items with one
  key the map keeps the last.
\<close>

definition lookupLast :: "(todo_item \<Rightarrow> string) \<Rightarrow> todo_item list \<Rightarrow> string \<Rightarrow> todo_item option" where
  "lookupLast key list k = find (\<lambda>item. key item = k) (rev list)"

definition mergeItem :: "todo_item list \<Rightarrow> todo_item \<Rightarrow> todo_item" where
  "mergeItem currentList item =
     (let idKey = itemId item;
          textKey = toLowerCase (itemText item);
          existing = (case lookupLast itemId currentList idKey of
                        Some e \<Rightarrow> Some e
                      | None \<Rightarrow> lookupLast (\<lambda>i. toLowerCase (itemText i)) currentList textKey)
      in case existing of
           None \<Rightarrow> item
         | Some e \<Rightarrow> item\<lparr>itemStatus :=
              (if itemStatus e = ''done'' \<or> itemStatus item = ''done'' then ''done'' else ''pending'')\<rparr>)"

text \<open>The second loop: a done item of the current list that the merged list lacks is pushed.\<close>

definition existsIn :: "todo_item list \<Rightarrow> todo_item \<Rightarrow> bool" where
  "existsIn merged item =
     list_ex (\<lambda>entry. itemId entry = itemId item
                \<or> toLowerCase (itemText entry) = toLowerCase (itemText item)) merged"

fun keepDone :: "todo_item list \<Rightarrow> todo_item list \<Rightarrow> todo_item list" where
  "keepDone merged [] = merged"
| "keepDone merged (item # items) =
     (if itemStatus item \<noteq> ''done'' then keepDone merged items
      else if existsIn merged item then keepDone merged items
      else keepDone (merged @ [item]) items)"

definition mergeTodoLists :: "raw_item list \<Rightarrow> raw_item list \<Rightarrow> todo_item list" where
  "mergeTodoLists current incoming =
     (let next = normalizeTodoList incoming in
      if next = [] then normalizeTodoList current
      else (let currentList = normalizeTodoList current;
                merged = map (mergeItem currentList) next
            in keepDone merged currentList))"



text \<open>
  Two texts for the line budget: the old text is 395 lines \<^verbatim>\<open>x\<close>, seven lines
  \<^verbatim>\<open>c1\<close> to \<^verbatim>\<open>c7\<close> and a line \<^verbatim>\<open>y\<close>; the new text is the seven lines alone.
\<close>

definition sevenLines :: "string list" where
  "sevenLines = [''c1'', ''c2'', ''c3'', ''c4'', ''c5'', ''c6'', ''c7'']"

definition longOldText :: string where
  "longOldText = joinLines (replicate 395 ''x'' @ sevenLines @ [''y''])"

definition longNewText :: string where
  "longNewText = joinLines sevenLines"


section \<open>Embedded-JSON scanner (chat.js)\<close>

text \<open>
  The variables of the scanning loop; \<^verbatim>\<open>start = -1\<close> is \<open>None\<close>. The loop of
  \<^verbatim>\<open>extractToolCallsFromText\<close> collects tool calls as well.
\<close>

record scan_state =
  depth :: nat
  start :: "nat option"
  inString :: bool
  escape :: bool
  ranges :: "(nat \<times> nat) list"

record tool_scan = scan_state +
  toolCalls :: "tool_call list"

text \<open>
  The escape test of both loops is \<^verbatim>\<open>ch === '\\\\'\<close>: the one-character string
  \<^verbatim>\<open>src[i]\<close> is compared with a string literal that denotes two backslashes.
\<close>

definition escapeLiteral :: string where
  "escapeLiteral = [backslash, backslash]"

text \<open>
  One iteration of the loop of \<^verbatim>\<open>extractToolCallsFromText\<close>. The parameter
  \<open>parseCalls\<close> stands for \<^verbatim>\<open>safeJsonParse(chunk)\<close> followed by the test that the
  result is an object whose \<^verbatim>\<open>toolCalls\<close> is an array: it yields that array, or
  \<open>None\<close> when the chunk does not parse or has no such array.
\<close>

definition toolScanStep :: "(string \<Rightarrow> tool_call list option) \<Rightarrow> string \<Rightarrow> tool_scan \<Rightarrow> nat \<Rightarrow> tool_scan" where
  "toolScanStep parseCalls src s i =
     (let ch = src ! i in
      if inString s then
        (if escape s then s\<lparr>escape := False\<rparr>
         else if [ch] = escapeLiteral then s\<lparr>escape := True\<rparr>
         else if ch = dquote then s\<lparr>inString := False\<rparr>
         else s)
      else if ch = dquote then s\<lparr>inString := True\<rparr>
      else if ch = CHR ''{'' then
        s\<lparr>start := (if depth s = 0 then Some i else start s), depth := depth s + 1\<rparr>
      else if ch = CHR ''}'' \<and> depth s > 0 then
        (if depth s - 1 = 0 then
           (case start s of
              None \<Rightarrow> s\<lparr>depth := depth s - 1\<rparr>
            | Some st \<Rightarrow>
                (case parseCalls (slice src st (i + 1)) of
                   None \<Rightarrow> s\<lparr>depth := depth s - 1, start := None\<rparr>
                 | Some calls \<Rightarrow>
                     s\<lparr>depth := depth s - 1, start := None,
                       toolCalls := toolCalls s @ calls,
                       ranges := ranges s @ [(st, i + 1)]\<rparr>))
         else s\<lparr>depth := depth s - 1\<rparr>)
      else s)"

definition toolScanInit :: tool_scan where
  "toolScanInit = \<lparr>depth = 0, start = None, inString = False, escape = False, ranges = [],
                    toolCalls = []\<rparr>"

text \<open>The text that is left when the ranges are cut out.\<close>

fun cutRanges :: "string \<Rightarrow> nat \<Rightarrow> (nat \<times> nat) list \<Rightarrow> string" where
  "cutRanges src cursor [] = (if cursor < length src then drop cursor src else [])"
| "cutRanges src cursor ((from, to) # rs) =
     (if from > cursor then slice src cursor from else []) @ cutRanges src to rs"

definition extractToolCallsFromText ::
    "(string \<Rightarrow> tool_call list option) \<Rightarrow> string \<Rightarrow> (tool_call list \<times> string) option" where
  "extractToolCallsFromText parseCalls src =
     (let s = foldl (toolScanStep parseCalls src) toolScanInit [0 ..< length src]
      in if toolCalls s = [] then None
         else Some (toolCalls s, trim (cutRanges src 0 (ranges s))))"

text \<open>One iteration of the loop of \<^verbatim>\<open>extractTodoFromText\<close>, which only collects ranges.\<close>

definition todoScanStep :: "string \<Rightarrow> scan_state \<Rightarrow> nat \<Rightarrow> scan_state" where
  "todoScanStep src s i =
     (let ch = src ! i in
      if inString s then
        (if escape s then s\<lparr>escape := False\<rparr>
         else if [ch] = escapeLiteral then s\<lparr>escape := True\<rparr>
         else if ch = dquote then s\<lparr>inString := False\<rparr>
         else s)
      else if ch = dquote then s\<lparr>inString := True\<rparr>
      else if ch = CHR ''{'' then
        s\<lparr>start := (if depth s = 0 then Some i else start s), depth := depth s + 1\<rparr>
      else if ch = CHR ''}'' \<and> depth s > 0 then
        (if depth s - 1 = 0 then
           (case start s of
              None \<Rightarrow> s\<lparr>depth := depth s - 1\<rparr>
            | Some st \<Rightarrow> s\<lparr>depth := depth s - 1, start := None,
                            ranges := ranges s @ [(st, i + 1)]\<rparr>)
         else s\<lparr>depth := depth s - 1\<rparr>)
      else s)"

definition todoScanInit :: scan_state where
  "todoScanInit = \<lparr>depth = 0, start = None, inString = False, escape = False, ranges = []\<rparr>"

text \<open>
  The second loop of \<^verbatim>\<open>extractTodoFromText\<close>: the first range whose chunk parses to
  an object with a \<^verbatim>\<open>todo\<close> or \<^verbatim>\<open>todos\<close> array (the parameter \<open>parseTodo\<close>) that
  normalises to a non-empty list.
\<close>

fun firstTodo :: "(string \<Rightarrow> raw_item list option) \<Rightarrow> string \<Rightarrow> (nat \<times> nat) list
    \<Rightarrow> (todo_item list \<times> (nat \<times> nat)) option" where
  "firstTodo parseTodo src [] = None"
| "firstTodo parseTodo src ((from, to) # rs) =
     (case parseTodo (slice src from to) of
        None \<Rightarrow> firstTodo parseTodo src rs
      | Some todo \<Rightarrow>
          (let normalized = normalizeTodoList todo
           in if normalized \<noteq> [] then Some (normalized, (from, to))
              else firstTodo parseTodo src rs))"

definition extractTodoFromText ::
    "(string \<Rightarrow> raw_item list option) \<Rightarrow> string \<Rightarrow> (todo_item list \<times> (nat \<times> nat)) option" where
  "extractTodoFromText parseTodo src =
     firstTodo parseTodo src
       (ranges (foldl (todoScanStep src) todoScanInit [0 ..< length src]))"

text \<open>
  The texts of the scanner scenario: prose with the string literal \<^verbatim>\<open>"\"}"\<close> (an
  escaped quote and a closing brace inside a string), then a JSON object.
\<close>

definition decoyLiteral :: string where
  "decoyLiteral = [dquote, backslash, dquote, CHR ''}'', dquote]"

definition quoted :: "string \<Rightarrow> string" where
  "quoted s = dquote # s @ [dquote]"

definition toolCallsObject :: string where
  "toolCallsObject =
     ''{'' @ quoted ''toolCalls'' @ '':[{'' @ quoted ''tool'' @ '':'' @ quoted ''read_dir''
       @ '','' @ quoted ''args'' @ '':{}}]}''"

definition todoObject :: string where
  "todoObject =
     ''{'' @ quoted ''todo'' @ '':[{'' @ quoted ''id'' @ '':'' @ quoted ''1''
       @ '','' @ quoted ''text'' @ '':'' @ quoted ''A''
       @ '','' @ quoted ''status'' @ '':'' @ quoted ''pending'' @ ''}]}''"

definition decoyThenToolCalls :: string where
  "decoyThenToolCalls = ''Say '' @ decoyLiteral @ '' then '' @ toolCallsObject"

definition decoyThenTodo :: string where
  "decoyThenTodo = ''Say '' @ decoyLiteral @ '' then '' @ todoObject"


section \<open>Workspace, revert ledger and tools (agentTools.js)\<close>

text \<open>
  The workspace as the tools see it: the content of every file, and the names of the
  directories that were created. A file and its open text document are one: an applied
  workspace edit changes the content.
\<close>

record revert_file =
  path :: string
  existed :: bool
  content :: string

record runner_state =
  files :: "string \<rightharpoonup> string"
  dirs :: "string set"
  revertChanges :: "string \<rightharpoonup> revert_file list"
  revertOrder :: "string list"

text \<open>
  What the tool runner is given or imports: the helpers of the workspace module, the
  functions of Node's \<^verbatim>\<open>path\<close>, and the message of the error that the platform
  throws for a path. The effects that come from outside the runner are functions of the
  file contents: the shell command of \<^verbatim>\<open>run_command\<close> (command, directory, timeout),
  the rename provider of the editor (an exception, no edit, or the files as the edit
  leaves them), \<^verbatim>\<open>git apply\<close> and \<^verbatim>\<open>patch\<close> (whether the patch applied, the
  output, the files afterwards), and the tools that only read.
\<close>

datatype exec_result =
    ExecOk string string
  | ExecFailed string string string "int option"

datatype rename_result =
    RenameThrows string
  | RenameNoEdit
  | RenameEdit "string \<rightharpoonup> string"

record platform =
  getWorkspaceRoot :: string
  resolveWorkspacePathForTool :: "string \<Rightarrow> string"
  toWorkspaceRelativePath :: "string \<Rightarrow> string"
  dirname :: "string \<Rightarrow> string"
  pathResolve :: "string \<Rightarrow> string \<Rightarrow> string"
  pathRelative :: "string \<Rightarrow> string \<Rightarrow> string"
  pathSep :: string
  errorMessage :: "string \<Rightarrow> string"
  execCommand :: "string \<Rightarrow> string \<Rightarrow> int option \<Rightarrow> (string \<rightharpoonup> string)
                  \<Rightarrow> exec_result \<times> (string \<rightharpoonup> string)"
  renameProvider :: "string \<Rightarrow> nat \<times> nat \<Rightarrow> string \<Rightarrow> (string \<rightharpoonup> string) \<Rightarrow> rename_result"
  runPatch :: "string \<Rightarrow> string \<Rightarrow> (string \<rightharpoonup> string) \<Rightarrow> bool \<times> string \<times> (string \<rightharpoonup> string)"
  readOnlyTool :: "string \<Rightarrow> js_args \<Rightarrow> (string \<rightharpoonup> string) \<Rightarrow> string"

text \<open>
  What the environment decides during one tool call: the user's answer to the approval
  request, whether the editor accepts the workspace edit, and the id that
  \<^verbatim>\<open>Date.now()\<close> and \<^verbatim>\<open>Math.random()\<close> produce.
\<close>

record decisions =
  approved :: bool
  editOk :: bool
  newRevertId :: string

definition MAX_REVERTS :: nat where
  "MAX_REVERTS = 40"

definition registerRevertChange :: "string \<Rightarrow> revert_file list \<Rightarrow> runner_state \<Rightarrow> string \<times> runner_state" where
  "registerRevertChange newId change s =
     (if change = [] then ([], s)
      else (let s1 = s\<lparr>revertChanges := (revertChanges s)(newId \<mapsto> change),
                        revertOrder := revertOrder s @ [newId]\<rparr>
            in if length (revertOrder s1) > MAX_REVERTS
               then (let oldest = hd (revertOrder s1);
                         s2 = s1\<lparr>revertOrder := tl (revertOrder s1)\<rparr>
                     in (newId, if oldest \<noteq> []
                                then s2\<lparr>revertChanges := (revertChanges s2)(oldest := None)\<rparr>
                                else s2))
               else (newId, s1)))"

definition formatRevertTag :: "string \<Rightarrow> string" where
  "formatRevertTag rid =
     (let safe = trim rid in
      if safe \<noteq> [] then [newline, newline] @ ''[[revert:'' @ safe @ '']]'' else [])"

text \<open>
  The file operations of the platform. Deleting, renaming and copying throw (\<open>None\<close>)
  when the source is missing, renaming and copying also when the target exists and
  \<^verbatim>\<open>overwrite\<close> is not set; writing and creating a directory succeed.
\<close>

definition fsDelete :: "string \<Rightarrow> runner_state \<Rightarrow> runner_state option" where
  "fsDelete p s = (if files s p = None then None else Some (s\<lparr>files := (files s)(p := None)\<rparr>))"

definition fsWriteFile :: "string \<Rightarrow> string \<Rightarrow> runner_state \<Rightarrow> runner_state" where
  "fsWriteFile p c s = s\<lparr>files := (files s)(p \<mapsto> c)\<rparr>"

definition fsCreateDirectory :: "string \<Rightarrow> runner_state \<Rightarrow> runner_state" where
  "fsCreateDirectory d s = s\<lparr>dirs := insert d (dirs s)\<rparr>"

definition fsRename :: "string \<Rightarrow> string \<Rightarrow> bool \<Rightarrow> runner_state \<Rightarrow> runner_state option" where
  "fsRename from to overwrite s =
     (case files s from of
        None \<Rightarrow> None
      | Some c \<Rightarrow>
          if files s to \<noteq> None \<and> \<not> overwrite then None
          else Some (s\<lparr>files := ((files s)(from := None))(to \<mapsto> c)\<rparr>))"

definition fsCopy :: "string \<Rightarrow> string \<Rightarrow> bool \<Rightarrow> runner_state \<Rightarrow> runner_state option" where
  "fsCopy from to overwrite s =
     (case files s from of
        None \<Rightarrow> None
      | Some c \<Rightarrow>
          if files s to \<noteq> None \<and> \<not> overwrite then None
          else Some (s\<lparr>files := (files s)(to \<mapsto> c)\<rparr>))"



definition buildDiffBlock :: "string \<Rightarrow> string \<Rightarrow> string" where
  "buildDiffBlock oldText newText =
     (let diffText = buildUnifiedDiff oldText newText blockOptions in
      if diffText = [] then []
      else ''```diff'' @ [newline] @ diffText @ [newline] @ ''```'')"

text \<open>
  Text documents. The lines of a document are those of \<^verbatim>\<open>getText().split(/\r?\n/)\<close>;
  a position is a line and a character, both from zero; replacing a range puts the new
  text between the offsets of its two positions.
\<close>

fun lineStart :: "string \<Rightarrow> nat \<Rightarrow> nat" where
  "lineStart txt 0 = 0"
| "lineStart [] (Suc l) = 0"
| "lineStart (c # cs) (Suc l) = 1 + (if c = newline then lineStart cs l else lineStart cs (Suc l))"

definition posOffset :: "string \<Rightarrow> nat \<times> nat \<Rightarrow> nat" where
  "posOffset txt pos = min (length txt) (lineStart txt (fst pos) + snd pos)"

definition replaceRange :: "string \<Rightarrow> nat \<times> nat \<Rightarrow> nat \<times> nat \<Rightarrow> string \<Rightarrow> string" where
  "replaceRange txt startPos endPos newText =
     take (posOffset txt startPos) txt @ newText @ drop (posOffset txt endPos) txt"

fun hasCRLF :: "string \<Rightarrow> bool" where
  "hasCRLF (a # b # cs) = ((a = carriageReturn \<and> b = newline) \<or> hasCRLF (b # cs))"
| "hasCRLF _ = False"

definition docEol :: "string \<Rightarrow> string" where
  "docEol txt = (if hasCRLF txt then [carriageReturn, newline] else [newline])"

fun joinWith :: "string \<Rightarrow> string list \<Rightarrow> string" where
  "joinWith sep [] = []"
| "joinWith sep [l] = l"
| "joinWith sep (l # ls) = l @ sep @ joinWith sep ls"

text \<open>
  The two trimming loops of \<^verbatim>\<open>toolEditFile\<close>: the largest \<open>k\<close>, from \<open>maxK\<close> down
  to one, that passes the comparison, or zero.
\<close>

definition largestMatch :: "nat \<Rightarrow> (nat \<Rightarrow> bool) \<Rightarrow> nat" where
  "largestMatch maxK matches = (case find matches (rev [1 ..< maxK + 1]) of None \<Rightarrow> 0 | Some k \<Rightarrow> k)"

text \<open>
  The common tail of the three document tools, after the workspace edit was applied: the
  diff block, the registration of the change and the result text.
\<close>

definition documentEdited ::
    "decisions \<Rightarrow> string \<Rightarrow> string \<Rightarrow> string \<Rightarrow> string \<Rightarrow> string \<Rightarrow> runner_state
     \<Rightarrow> string \<times> runner_state" where
  "documentEdited orc fullPath beforeDocText afterDocText headline note s =
     (let s1 = s\<lparr>files := (files s)(fullPath \<mapsto> afterDocText)\<rparr>;
          diff = buildDiffBlock beforeDocText afterDocText;
          suffix = (if diff \<noteq> [] then [newline, newline] @ diff else []);
          (revertId, s2) = registerRevertChange (newRevertId orc)
            [\<lparr>path = fullPath, existed = True, content = beforeDocText\<rparr>] s1
      in (headline @ suffix @ note @ formatRevertTag revertId, s2))"

text \<open>
  What \<^verbatim>\<open>toolEditFile\<close> computes from the document and the arguments before it asks
  for approval: the clamped line numbers, the range, the two trim counts and the text to
  put in.
\<close>

record edit_plan =
  safeStart :: nat
  safeEnd :: nat
  startPos :: "nat \<times> nat"
  endPos :: "nat \<times> nat"
  prefixTrim :: nat
  suffixTrim :: nat
  newText :: string

definition editPlan :: "string \<Rightarrow> int \<Rightarrow> int \<Rightarrow> string \<Rightarrow> edit_plan" where
  "editPlan beforeDocText startLine endLine rawNewText =
     (let docLines = splitRegexNewline beforeDocText;
          maxLine = max 1 (int (length docLines));
          safeStart = nat (min (max 1 startLine) maxLine);
          safeEnd = nat (min (max (int safeStart) endLine) maxLine);
          newLines = splitRegexNewline rawNewText;
          beforeLines = take (safeStart - 1) docLines;
          prefixTrim = largestMatch (min (length beforeLines) (length newLines))
            (\<lambda>k. drop (length beforeLines - k) beforeLines = take k newLines);
          afterLines = drop safeEnd docLines;
          suffixTrim = largestMatch (min (length afterLines) (length newLines - prefixTrim))
            (\<lambda>k. take k afterLines = drop (length newLines - k) newLines);
          normalizedLines = slice newLines prefixTrim (length newLines - suffixTrim)
      in \<lparr>safeStart = safeStart, safeEnd = safeEnd,
          startPos = (safeStart - 1, 0),
          endPos = (safeEnd - 1, length (docLines ! (safeEnd - 1))),
          prefixTrim = prefixTrim, suffixTrim = suffixTrim,
          newText = joinWith (docEol beforeDocText) normalizedLines\<rparr>)"

definition editTrimNote :: "edit_plan \<Rightarrow> string" where
  "editTrimNote plan =
     (if prefixTrim plan \<noteq> 0 \<or> suffixTrim plan \<noteq> 0
      then [newline, newline] @ ''Note: trimmed '' @ showNat (prefixTrim plan)
           @ '' leading and '' @ showNat (suffixTrim plan)
           @ '' trailing line(s) that duplicated adjacent content.''
      else [])"

definition toolEditFile :: "platform \<Rightarrow> decisions \<Rightarrow> js_args \<Rightarrow> runner_state \<Rightarrow> string \<times> runner_state" where
  "toolEditFile pf orc targs s =
     (let fullPath = resolveWorkspacePathForTool pf (strOrEmpty (getArg targs ''path'')) in
      if fullPath = [] then (''Edit failed: invalid or out-of-workspace path.'', s)
      else case (jsNumber (getArg targs ''startLine''), jsNumber (getArg targs ''endLine'')) of
        (Some startLine, Some endLine) \<Rightarrow>
          if endLine < startLine then (''Edit failed: endLine must be >= startLine.'', s)
          else (case files s fullPath of
             None \<Rightarrow> (''Edit failed: '' @ errorMessage pf fullPath, s)
           | Some beforeDocText \<Rightarrow>
              (let plan = editPlan beforeDocText startLine endLine
                            (strOrEmpty (getArg targs ''newText''));
                   rel = toWorkspaceRelativePath pf fullPath
               in if \<not> approved orc then (''Edit canceled by user.'', s)
                  else if \<not> editOk orc then (''Edit failed: workspace edit was rejected.'', s)
                  else documentEdited orc fullPath beforeDocText
                         (replaceRange beforeDocText (startPos plan) (endPos plan) (newText plan))
                         (''Edit applied to '' @ rel @ '' (lines '' @ showNat (safeStart plan)
                            @ ''-'' @ showNat (safeEnd plan) @ '').'')
                         (editTrimNote plan) s))
      | _ \<Rightarrow> (''Edit failed: startLine and endLine are required numbers.'', s))"

text \<open>
  \<^verbatim>\<open>clampPosition(doc, line, character, allowEnd)\<close> on finite numbers; the result is a
  position counted from zero.
\<close>

definition clampPosition :: "string list \<Rightarrow> int \<Rightarrow> int \<Rightarrow> bool \<Rightarrow> nat \<times> nat" where
  "clampPosition docLines ln ch allowEnd =
     (let maxLine = max 1 (int (length docLines));
          safeLine = nat (min (max 1 (if ln = 0 then 1 else ln)) maxLine);
          lineText = docLines ! (safeLine - 1);
          maxChar = (if allowEnd then int (length lineText) + 1 else max 1 (int (length lineText)));
          safeChar = nat (min (max 1 (if ch = 0 then 1 else ch)) maxChar)
      in (safeLine - 1, safeChar - 1))"

text \<open>\<^verbatim>\<open>args.key && typeof args.key === 'object' ? args.key : {}\<close>\<close>

definition objectArg :: "js_args \<Rightarrow> string \<Rightarrow> js_args" where
  "objectArg targs k = (case getArg targs k of JObj kvs \<Rightarrow> kvs | _ \<Rightarrow> [])"

text \<open>\<^verbatim>\<open>Number.isFinite(Number(a)) ? Number(a) : b\<close>\<close>

definition finiteOr :: "jsval \<Rightarrow> int option \<Rightarrow> int option" where
  "finiteOr a b = (case jsNumber a of Some n \<Rightarrow> Some n | None \<Rightarrow> b)"

definition toolInsertText :: "platform \<Rightarrow> decisions \<Rightarrow> js_args \<Rightarrow> runner_state \<Rightarrow> string \<times> runner_state" where
  "toolInsertText pf orc targs s =
     (let fullPath = resolveWorkspacePathForTool pf (strOrEmpty (getArg targs ''path'')) in
      if fullPath = [] then (''Insert text failed: invalid or out-of-workspace path.'', s)
      else (let txt = strOrEmpty (getArg targs ''text'');
                pos = objectArg targs ''position''
            in case (finiteOr (getArg pos ''line'') (jsNumber (getArg targs ''line'')),
                     finiteOr (getArg pos ''character'') (jsNumber (getArg targs ''character''))) of
              (Some ln, Some ch) \<Rightarrow>
                (case files s fullPath of
                   None \<Rightarrow> (''Insert text failed: '' @ errorMessage pf fullPath, s)
                 | Some beforeDocText \<Rightarrow>
                    (let position = clampPosition (splitRegexNewline beforeDocText) ln ch True;
                         rel = toWorkspaceRelativePath pf fullPath
                     in if \<not> approved orc then (''Insert text canceled by user.'', s)
                        else if \<not> editOk orc then (''Insert text failed: workspace edit rejected.'', s)
                        else documentEdited orc fullPath beforeDocText
                               (replaceRange beforeDocText position position txt)
                               (''Inserted text into '' @ rel @ '' at '' @ showNat (fst position + 1)
                                  @ '':'' @ showNat (snd position + 1) @ ''.'')
                               [] s))
            | _ \<Rightarrow> (''Insert text failed: position.line and position.character are required.'', s)))"

text \<open>\<^verbatim>\<open>endPos.isBefore(startPos)\<close>\<close>

definition isBefore :: "nat \<times> nat \<Rightarrow> nat \<times> nat \<Rightarrow> bool" where
  "isBefore a b = (fst a < fst b \<or> (fst a = fst b \<and> snd a < snd b))"

definition toolReplaceRange :: "platform \<Rightarrow> decisions \<Rightarrow> js_args \<Rightarrow> runner_state \<Rightarrow> string \<times> runner_state" where
  "toolReplaceRange pf orc targs s =
     (let fullPath = resolveWorkspacePathForTool pf (strOrEmpty (getArg targs ''path'')) in
      if fullPath = [] then (''Replace range failed: invalid or out-of-workspace path.'', s)
      else (let txt = strOrEmpty (getArg targs ''text'');
                rangeArg = objectArg targs ''range'';
                startLine = finiteOr (getArg rangeArg ''startLine'') (jsNumber (getArg targs ''startLine''));
                startChar = finiteOr (getArg rangeArg ''startChar'')
                              (finiteOr (getArg rangeArg ''startCharacter'')
                                 (jsNumber (getArg targs ''startChar'')));
                endLine = finiteOr (getArg rangeArg ''endLine'') (jsNumber (getArg targs ''endLine''));
                endChar = finiteOr (getArg rangeArg ''endChar'')
                            (finiteOr (getArg rangeArg ''endCharacter'')
                               (jsNumber (getArg targs ''endChar'')))
            in case (startLine, startChar, endLine, endChar) of
              (Some sl, Some sc, Some el, Some ec) \<Rightarrow>
                (case files s fullPath of
                   None \<Rightarrow> (''Replace range failed: '' @ errorMessage pf fullPath, s)
                 | Some beforeDocText \<Rightarrow>
                    (let docLines = splitRegexNewline beforeDocText;
                         startPos = clampPosition docLines sl sc True;
                         endPos = clampPosition docLines el ec True;
                         rel = toWorkspaceRelativePath pf fullPath
                     in if isBefore endPos startPos
                        then (''Replace range failed: end position must be after start position.'', s)
                        else if \<not> approved orc then (''Replace range canceled by user.'', s)
                        else if \<not> editOk orc then (''Replace range failed: workspace edit rejected.'', s)
                        else documentEdited orc fullPath beforeDocText
                               (replaceRange beforeDocText startPos endPos txt)
                               (''Replaced range in '' @ rel @ ''.'') [] s))
            | _ \<Rightarrow> (''Replace range failed: range start/end line/char are required.'', s)))"

text \<open>
  \<^verbatim>\<open>toolWriteFile\<close>. After the file is written, both branches build the change with
  the shorthand property \<^verbatim>\<open>existed\<close>; the function declares \<^verbatim>\<open>exists\<close> and no
  \<^verbatim>\<open>existed\<close>, so evaluating the object throws a \<^verbatim>\<open>ReferenceError\<close> before
  \<^verbatim>\<open>registerRevertChange\<close> is called, and the \<^verbatim>\<open>catch\<close> clause returns its message.
\<close>

definition writeFileReferenceError :: string where
  "writeFileReferenceError = ''Write failed: existed is not defined''"

definition toolWriteFile :: "platform \<Rightarrow> decisions \<Rightarrow> js_args \<Rightarrow> runner_state \<Rightarrow> string \<times> runner_state" where
  "toolWriteFile pf orc targs s =
     (let fullPath = resolveWorkspacePathForTool pf (strOrEmpty (getArg targs ''path'')) in
      if fullPath = [] then (''Write failed: invalid or out-of-workspace path.'', s)
      else (let newContent = strOrEmpty (getArg targs ''content'');
                overwrite = truthy (getArg targs ''overwrite'');
                append = truthy (getArg targs ''append'');
                s1 = fsCreateDirectory (dirname pf fullPath) s;
                exists = (files s1 fullPath \<noteq> None);
                rel = toWorkspaceRelativePath pf fullPath
            in if \<not> approved orc then (''Write canceled by user.'', s1)
               else if append then
                 (let existingContent = (case files s1 fullPath of Some c \<Rightarrow> c | None \<Rightarrow> []);
                      s2 = fsWriteFile fullPath (existingContent @ newContent) s1
                  in (writeFileReferenceError, s2))
               else if exists \<and> \<not> overwrite
               then (''Write failed: '' @ rel @ '' already exists (set overwrite=true).'', s1)
               else (writeFileReferenceError, fsWriteFile fullPath newContent s1)))"

definition toolCreateDir :: "platform \<Rightarrow> decisions \<Rightarrow> js_args \<Rightarrow> runner_state \<Rightarrow> string \<times> runner_state" where
  "toolCreateDir pf orc targs s =
     (let fullPath = resolveWorkspacePathForTool pf (strOrEmpty (getArg targs ''path'')) in
      if fullPath = [] then (''Create dir failed: invalid or out-of-workspace path.'', s)
      else if \<not> approved orc then (''Create dir canceled by user.'', s)
      else (''Directory created: '' @ toWorkspaceRelativePath pf fullPath @ ''.'',
            fsCreateDirectory fullPath s))"

definition toolDeleteFile :: "platform \<Rightarrow> decisions \<Rightarrow> js_args \<Rightarrow> runner_state \<Rightarrow> string \<times> runner_state" where
  "toolDeleteFile pf orc targs s =
     (let fullPath = resolveWorkspacePathForTool pf (strOrEmpty (getArg targs ''path'')) in
      if fullPath = [] then (''Delete failed: invalid or out-of-workspace path.'', s)
      else (let rel = toWorkspaceRelativePath pf fullPath in
            case files s fullPath of
              None \<Rightarrow> (''Delete failed: '' @ rel @ '' not found.'', s)
            | Some existingContent \<Rightarrow>
                if \<not> approved orc then (''Delete canceled by user.'', s)
                else (case fsDelete fullPath s of
                        None \<Rightarrow> (''Delete failed: '' @ errorMessage pf fullPath, s)
                      | Some s1 \<Rightarrow>
                          if files s1 fullPath \<noteq> None
                          then (''Delete failed: '' @ rel @ '' still exists after delete.'', s1)
                          else (let diff = buildDiffBlock existingContent [];
                                    suffix = (if diff \<noteq> [] then [newline, newline] @ diff else []);
                                    (revertId, s2) = registerRevertChange (newRevertId orc)
                                      [\<lparr>path = fullPath, existed = True, content = existingContent\<rparr>] s1
                                in (''Deleted '' @ rel @ ''.'' @ suffix @ formatRevertTag revertId, s2)))))"

text \<open>The arrow of the result texts of the move and copy tools, in UTF-8.\<close>

definition arrow :: string where
  "arrow = [CHR 0xE2, CHR 0x86, CHR 0x92]"

definition toolMoveFile :: "platform \<Rightarrow> decisions \<Rightarrow> js_args \<Rightarrow> runner_state \<Rightarrow> string \<times> runner_state" where
  "toolMoveFile pf orc targs s =
     (let fromPath = resolveWorkspacePathForTool pf (strOrEmpty (getArg targs ''from''));
          toPath = resolveWorkspacePathForTool pf (strOrEmpty (getArg targs ''to''))
      in if fromPath = [] \<or> toPath = [] then (''Move failed: invalid or out-of-workspace path.'', s)
         else (let overwrite = truthy (getArg targs ''overwrite'');
                   relFrom = toWorkspaceRelativePath pf fromPath;
                   relTo = toWorkspaceRelativePath pf toPath
               in if \<not> approved orc then (''Move canceled by user.'', s)
                  else (let s1 = fsCreateDirectory (dirname pf toPath) s in
                        case fsRename fromPath toPath overwrite s1 of
                          None \<Rightarrow> (''Move failed: '' @ errorMessage pf fromPath, s1)
                        | Some s2 \<Rightarrow>
                            (''Moved '' @ relFrom @ '' '' @ arrow @ '' '' @ relTo @ ''.'', s2))))"

definition toolCopyFile :: "platform \<Rightarrow> decisions \<Rightarrow> js_args \<Rightarrow> runner_state \<Rightarrow> string \<times> runner_state" where
  "toolCopyFile pf orc targs s =
     (let fromPath = resolveWorkspacePathForTool pf (strOrEmpty (getArg targs ''from''));
          toPath = resolveWorkspacePathForTool pf (strOrEmpty (getArg targs ''to''))
      in if fromPath = [] \<or> toPath = [] then (''Copy failed: invalid or out-of-workspace path.'', s)
         else (let overwrite = truthy (getArg targs ''overwrite'');
                   relFrom = toWorkspaceRelativePath pf fromPath;
                   relTo = toWorkspaceRelativePath pf toPath
               in if \<not> approved orc then (''Copy canceled by user.'', s)
                  else (let s1 = fsCreateDirectory (dirname pf toPath) s in
                        case fsCopy fromPath toPath overwrite s1 of
                          None \<Rightarrow> (''Copy failed: '' @ errorMessage pf fromPath, s1)
                        | Some s2 \<Rightarrow>
                            (''Copied '' @ relFrom @ '' '' @ arrow @ '' '' @ relTo @ ''.'', s2))))"


definition toolRunCommand :: "platform \<Rightarrow> decisions \<Rightarrow> js_args \<Rightarrow> runner_state \<Rightarrow> string \<times> runner_state" where
  "toolRunCommand pf orc targs s =
     (let command = trim (strOrEmpty (getArg targs ''command'')) in
      if command = [] then (''Run failed: command is required.'', s)
      else (let rawCwd = (if truthy (getArg targs ''cwd'') then jsString (getArg targs ''cwd'') else []);
                cwd = (if rawCwd \<noteq> [] then resolveWorkspacePathForTool pf rawCwd
                       else getWorkspaceRoot pf)
            in if cwd = [] then (''Run failed: invalid or missing workspace cwd.'', s)
               else (let timeoutMs = map_option (\<lambda>n. max 1000 (min (5 * 60 * 1000) n))
                            (jsNumber (jsOr (getArg targs ''timeoutMs'') (JNum 60000)))
                     in if \<not> approved orc then (''Command canceled by user.'', s)
                        else (case execCommand pf command cwd timeoutMs (files s) of
                           (ExecOk out err, files') \<Rightarrow>
                             (let output = joinLines (filter (\<lambda>t. t \<noteq> []) [trim out, trim err])
                              in (if output = [] then ''Command succeeded (exit 0) with no output.''
                                  else ''Command succeeded (exit 0):'' @ [newline] @ output,
                                  s\<lparr>files := files'\<rparr>))
                         | (ExecFailed out err message code, files') \<Rightarrow>
                             (''Command failed''
                                @ (case code of Some c \<Rightarrow> '' (exit '' @ showInt c @ '')'' | None \<Rightarrow> [])
                                @ '': '' @ message
                                @ (if trim out \<noteq> [] then [newline] @ ''STDOUT:'' @ [newline] @ trim out else [])
                                @ (if trim err \<noteq> [] then [newline] @ ''STDERR:'' @ [newline] @ trim err else []),
                              s\<lparr>files := files'\<rparr>)))))"

text \<open>\<^verbatim>\<open>parsePosition(args)\<close>\<close>

definition parsePosition :: "js_args \<Rightarrow> nat \<times> nat" where
  "parsePosition targs =
     (let ln = (case jsNumber (getArg targs ''line'') of Some n \<Rightarrow> max 1 n | None \<Rightarrow> 1);
          ch = (case jsNumber (getArg targs ''character'') of Some n \<Rightarrow> max 1 n | None \<Rightarrow> 1)
      in (nat (ln - 1), nat (ch - 1)))"

definition toolRenameApply :: "platform \<Rightarrow> decisions \<Rightarrow> js_args \<Rightarrow> runner_state \<Rightarrow> string \<times> runner_state" where
  "toolRenameApply pf orc targs s =
     (let newName = trim (strOrEmpty (getArg targs ''newName'')) in
      if newName = [] then (''Rename apply failed: newName is required.'', s)
      else (let fullPath = resolveWorkspacePathForTool pf
                             (strOrEmpty (jsOr (getArg targs ''uri'') (getArg targs ''path'')))
            in if fullPath = [] then (''Rename apply failed: invalid or out-of-workspace path.'', s)
               else (case renameProvider pf fullPath (parsePosition targs) newName (files s) of
                       RenameThrows message \<Rightarrow> (''Rename apply failed: '' @ message, s)
                     | RenameNoEdit \<Rightarrow> (''Rename apply: no edit returned.'', s)
                     | RenameEdit files' \<Rightarrow>
                         if \<not> approved orc then (''Rename canceled by user.'', s)
                         else if editOk orc then (''Rename applied.'', s\<lparr>files := files'\<rparr>)
                         else (''Rename failed: workspace edit rejected.'', s))))"

definition startsWith :: "string \<Rightarrow> string \<Rightarrow> bool" where
  "startsWith str pre = (take (length pre) str = pre)"

fun includesStr :: "string \<Rightarrow> string \<Rightarrow> bool" where
  "includesStr [] sub = (sub = [])"
| "includesStr (c # cs) sub = (startsWith (c # cs) sub \<or> includesStr cs sub)"

definition normalizePatchPath :: "string \<Rightarrow> string" where
  "normalizePatchPath raw =
     (let trimmed = trim raw in
      if trimmed = [] \<or> trimmed = ''/dev/null'' then []
      else (let unquoted = rev (dropWhile (\<lambda>c. c = dquote) (rev (dropWhile (\<lambda>c. c = dquote) trimmed)))
            in if startsWith unquoted ''a/'' \<or> startsWith unquoted ''b/''
               then drop 2 unquoted else unquoted))"

text \<open>The loop of \<^verbatim>\<open>extractPatchTargets\<close>; a target is the pair of old and new path.\<close>

fun patchTargetsFrom :: "string \<Rightarrow> string list \<Rightarrow> (string \<times> string) list" where
  "patchTargetsFrom pendingOld [] = []"
| "patchTargetsFrom pendingOld (l # ls) =
     (if startsWith l ''--- '' then patchTargetsFrom (normalizePatchPath (drop 4 l)) ls
      else if startsWith l ''+++ ''
      then (pendingOld, normalizePatchPath (drop 4 l)) # patchTargetsFrom [] ls
      else patchTargetsFrom pendingOld ls)"

definition extractPatchTargets :: "string \<Rightarrow> (string \<times> string) list" where
  "extractPatchTargets patch = patchTargetsFrom [] (splitRegexNewline patch)"

text \<open>
  The set \<^verbatim>\<open>targetPaths\<close> of \<^verbatim>\<open>toolApplyPatch\<close>, in insertion order: of a path
  added twice the first occurrence stays.
\<close>

definition patchTargetPaths :: "platform \<Rightarrow> string \<Rightarrow> string \<Rightarrow> string list" where
  "patchTargetPaths pf cwd patch =
     rev (remdups (rev
       (concat (map (\<lambda>(oldPath, newPath).
          concat (map (\<lambda>relPath.
            (let full = pathResolve pf cwd relPath;
                 rel = pathRelative pf (getWorkspaceRoot pf) full
             in if getWorkspaceRoot pf = [] then []
                else if startsWith rel ''..'' \<or> includesStr rel (''..'' @ pathSep pf) then []
                else [full]))
            (filter (\<lambda>t. t \<noteq> []) [oldPath, newPath])))
          (extractPatchTargets patch)))))"

definition snapshotFile :: "runner_state \<Rightarrow> string \<Rightarrow> revert_file" where
  "snapshotFile s full =
     (case files s full of
        Some c \<Rightarrow> \<lparr>path = full, existed = True, content = c\<rparr>
      | None \<Rightarrow> \<lparr>path = full, existed = False, content = []\<rparr>)"

definition limitDiffLines :: "string \<Rightarrow> nat \<Rightarrow> string \<times> bool" where
  "limitDiffLines txt maxLines =
     (let lns = splitRegexNewline txt;
          limit = max 20 (if maxLines = 0 then 400 else maxLines)
      in if length lns \<le> limit then (txt, False)
         else (joinLines (take limit lns) @ [newline] @ ''...'', True))"

definition toolApplyPatch :: "platform \<Rightarrow> decisions \<Rightarrow> js_args \<Rightarrow> runner_state \<Rightarrow> string \<times> runner_state" where
  "toolApplyPatch pf orc targs s =
     (let patch = trim (strOrEmpty (jsOr (getArg targs ''patch'') (getArg targs ''diff''))) in
      if patch = [] then (''Apply patch failed: patch content is empty.'', s)
      else (let rawCwd = (if truthy (getArg targs ''cwd'') then jsString (getArg targs ''cwd'') else []);
                cwd = (if rawCwd \<noteq> [] then resolveWorkspacePathForTool pf rawCwd
                       else getWorkspaceRoot pf)
            in if cwd = [] then (''Apply patch failed: invalid or missing workspace cwd.'', s)
               else if \<not> approved orc then (''Apply patch canceled by user.'', s)
               else (let beforeFiles = map (snapshotFile s) (patchTargetPaths pf cwd patch) in
                     case runPatch pf patch cwd (files s) of
                       (applied, output, files') \<Rightarrow>
                         if \<not> applied
                         then (if output \<noteq> [] then output else ''Apply patch failed.'',
                               s\<lparr>files := files'\<rparr>)
                         else (let limited = limitDiffLines patch 400;
                                   diff = (if fst limited \<noteq> []
                                           then ''```diff'' @ [newline] @ fst limited @ [newline] @ ''```''
                                           else []);
                                   note = (if snd limited
                                           then [newline, newline] @ ''Patch diff truncated.'' else []);
                                   suffix = (if diff \<noteq> [] then [newline, newline] @ diff @ note else []);
                                   (revertId, s2) = registerRevertChange (newRevertId orc) beforeFiles
                                                      (s\<lparr>files := files'\<rparr>)
                               in (if output \<noteq> []
                                   then ''Patch applied.'' @ [newline] @ output @ suffix
                                        @ formatRevertTag revertId
                                   else ''Patch applied.'' @ suffix @ formatRevertTag revertId, s2)))))"

text \<open>
  \<^verbatim>\<open>runToolCall\<close> of the tool runner: the mutating tools, and every reading tool
  through the platform.
\<close>

definition mutatingToolNames :: "string list" where
  "mutatingToolNames =
     [''edit_file'', ''insert_text'', ''replace_range'', ''copy_file'', ''apply_patch'',
      ''write_file'', ''create_dir'', ''delete_file'', ''move_file'', ''run_command'',
      ''rename_apply'']"

definition readOnlyToolNames :: "string list" where
  "readOnlyToolNames =
     [''search'', ''read_file'', ''read_files'', ''read_file_range_by_symbols'',
      ''search_symbols'', ''workspace_symbols'', ''document_symbols'', ''definition'',
      ''type_definition'', ''implementation'', ''references'', ''hover'', ''signature_help'',
      ''call_hierarchy_prepare'', ''call_hierarchy_incoming'', ''call_hierarchy_outgoing'',
      ''rename_prepare'', ''semantic_tokens'', ''locate_file'', ''list_files'', ''file_stat'',
      ''read_dir'', ''read_output'', ''apply_patch_preview'']"

definition runnerToolCall :: "platform \<Rightarrow> decisions \<Rightarrow> tool_call \<Rightarrow> runner_state \<Rightarrow> string \<times> runner_state" where
  "runnerToolCall pf orc call s =
     (let t = tool call; targs = args call in
      if t = ''edit_file'' then toolEditFile pf orc targs s
      else if t = ''insert_text'' then toolInsertText pf orc targs s
      else if t = ''replace_range'' then toolReplaceRange pf orc targs s
      else if t = ''write_file'' then toolWriteFile pf orc targs s
      else if t = ''create_dir'' then toolCreateDir pf orc targs s
      else if t = ''delete_file'' then toolDeleteFile pf orc targs s
      else if t = ''move_file'' then toolMoveFile pf orc targs s
      else if t = ''copy_file'' then toolCopyFile pf orc targs s
      else if t = ''apply_patch'' then toolApplyPatch pf orc targs s
      else if t = ''run_command'' then toolRunCommand pf orc targs s
      else if t = ''rename_apply'' then toolRenameApply pf orc targs s
      else if t \<in> set readOnlyToolNames then (readOnlyTool pf t targs (files s), s)
      else (''Unknown tool: '' @ t, s))"









section \<open>Agent loop (chat.js)\<close>

record message =
  msgRole :: string
  msgContent :: string

definition assistantMsg :: "string \<Rightarrow> message" where
  "assistantMsg c = \<lparr>msgRole = ''assistant'', msgContent = c\<rparr>"


text \<open>
  The loop of \<^verbatim>\<open>trimChatMessagesForModel\<close> for a positive limit, over the messages from
  the last to the first; the result is in the order of the pushes.
\<close>

fun trimLoop :: "nat \<Rightarrow> bool \<Rightarrow> message list \<Rightarrow> nat \<Rightarrow> message list" where
  "trimLoop limit isLast [] acc = []"
| "trimLoop limit isLast (m # ms) acc =
     (if isLast \<and> length (msgContent m) > limit
      then [m\<lparr>msgContent := drop (length (msgContent m) - limit) (msgContent m)\<rparr>]
      else if acc + length (msgContent m) > limit then trimLoop limit False ms acc
      else if acc + length (msgContent m) \<ge> limit then [m]
      else m # trimLoop limit False ms (acc + length (msgContent m)))"

definition trimChatMessagesForModel :: "message list \<Rightarrow> nat \<Rightarrow> message list" where
  "trimChatMessagesForModel messages limit =
     (if messages = [] then []
      else if limit = 0 then [last messages]
      else rev (trimLoop limit True (rev messages) 0))"



text \<open>
  The signature of a \<^verbatim>\<open>run_command\<close> call is \<^verbatim>\<open>JSON.stringify\<close> of the trimmed
  command, the trimmed directory and the timeout, which is the empty string when the
  argument is falsy and \<^verbatim>\<open>Number(args.timeoutMs)\<close> otherwise. Two such objects have the
  same JSON text exactly when their three components agree, so the triple stands for the
  text.
\<close>

datatype timeout_sig = NoTimeout | TimeoutMs "int option"




text \<open>
  What \<^verbatim>\<open>parseAgentResponse\<close>, \<^verbatim>\<open>parseTaggedToolCalls\<close> and
  \<^verbatim>\<open>extractToolCallsFromText\<close> return: an object with some of the fields
  \<^verbatim>\<open>final\<close>, \<^verbatim>\<open>toolCalls\<close>, \<^verbatim>\<open>text\<close> and \<^verbatim>\<open>todo\<close>.
\<close>

record parsed_turn =
  pFinal :: "string option"
  pToolCalls :: "tool_call list option"
  pText :: "string option"
  pTodo :: "todo_item list option"


text \<open>
  The surroundings of one agent turn. The model answers a request (the step and the
  messages sent) with a text, or the request throws. \<^verbatim>\<open>parseAgentResponse\<close> and
  \<^verbatim>\<open>parseTaggedToolCalls\<close> are taken as given, as are the two readings of a JSON chunk
  that the embedded-JSON scanners need, the text of \<^verbatim>\<open>describeToolCall\<close>, the workspace
  diagnostics, the stop flag as it stands when an iteration begins, the decisions of the
  environment for the n-th tool execution, the seed cached from the prompt and the two
  settings.
\<close>

record agent_env =
  callModelForChat :: "nat \<Rightarrow> message list \<Rightarrow> string option"
  parseAgentResponse :: "string \<Rightarrow> parsed_turn option"
  parseTaggedToolCalls :: "string \<Rightarrow> (tool_call list \<times> string) option"
  jsonToolCalls :: "string \<Rightarrow> tool_call list option"
  jsonTodo :: "string \<Rightarrow> raw_item list option"
  describeToolCall :: "tool_call \<Rightarrow> string"
  collectWorkspaceProblems :: "runner_state \<Rightarrow> string list"
  stopRequestedAt :: "nat \<Rightarrow> bool"
  toolDecisions :: "nat \<Rightarrow> decisions"
  toolPlatform :: platform
  todoSeedCache :: "todo_item list option"
  agentMaxStepsSetting :: "int option"
  chatHistoryCharsSetting :: "int option"


definition getChatHistoryCharLimit :: "agent_env \<Rightarrow> nat" where
  "getChatHistoryCharLimit env =
     (case chatHistoryCharsSetting env of None \<Rightarrow> 32000 | Some raw \<Rightarrow> nat (max 0 raw))"

text \<open>
  The state of a turn: the two transcripts and the five local variables of
  \<^verbatim>\<open>runAgentTurn\<close>, the module variables it writes (\<^verbatim>\<open>chatState.messages\<close>,
  \<^verbatim>\<open>chatState.todos\<close>, \<^verbatim>\<open>chatBusy\<close>, \<^verbatim>\<open>agentContinuationMessages\<close>), the
  workspace of the tool runner, and the calls that were handed to \<^verbatim>\<open>runToolCall\<close>.
\<close>

record agent_state =
  uiMessages :: "message list"
  modelMessages :: "message list"
  chatMessages :: "message list"
  todos :: "todo_item list"
  lastBareTodoSignature :: "todo_item list option"
  bareTodoRepeatCount :: nat
  lastCommandSignature :: "(string \<times> string \<times> timeout_sig) option"
  sawMutationSinceCommand :: bool
  mutationSinceProblems :: bool
  chatBusy :: bool
  agentContinuationMessages :: "message list option"
  runner :: runner_state
  executed :: "tool_call list"

definition pushUi :: "string \<Rightarrow> agent_state \<Rightarrow> agent_state" where
  "pushUi c s = s\<lparr>uiMessages := uiMessages s @ [assistantMsg c],
                  chatMessages := uiMessages s @ [assistantMsg c]\<rparr>"

definition pushModel :: "agent_env \<Rightarrow> message \<Rightarrow> agent_state \<Rightarrow> agent_state" where
  "pushModel env m s =
     s\<lparr>modelMessages := trimChatMessagesForModel (modelMessages s @ [m]) (getChatHistoryCharLimit env)\<rparr>"









text \<open>\<^verbatim>\<open>runToolCall\<close> of chat.js, on a call whose tool is a string.\<close>

definition runToolCall :: "agent_env \<Rightarrow> tool_call \<Rightarrow> agent_state \<Rightarrow> string \<times> agent_state" where
  "runToolCall env call s =
     (case runnerToolCall (toolPlatform env) (toolDecisions env (length (executed s))) call (runner s) of
        (result, r) \<Rightarrow> (result, s\<lparr>runner := r, executed := executed s @ [call]\<rparr>))"





























text \<open>The number of characters of a transcript, which the trimming compares with the limit.\<close>

definition totalChars :: "message list \<Rightarrow> nat" where
  "totalChars ms = sum_list (map (\<lambda>m. length (msgContent m)) ms)"







section \<open>Properties: search normalisation\<close>

lemma extRegexTest_backslash:
  "extRegexTest raw \<Longrightarrow> backslash \<in> set raw"
proof -
  assume "extRegexTest raw"
  then obtain k where k: "k + 2 \<le> length raw"
    and h: "hd (drop (length raw - (k + 2)) raw) = backslash"
    unfolding extRegexTest_def list_ex_iff Let_def by blast
  from k have "drop (length raw - (k + 2)) raw \<noteq> []" by simp
  then have "hd (drop (length raw - (k + 2)) raw) \<in> set (drop (length raw - (k + 2)) raw)"
    by (rule hd_in_set)
  then have "hd (drop (length raw - (k + 2)) raw) \<in> set raw"
    by (rule in_set_dropD)
  with h show ?thesis by simp
qed

text \<open>
  C10 (the code at the claim's input). A search whose query is the bare file name
  \<^verbatim>\<open>package.json\<close> has no whitespace and has a file extension, yet
  \<^verbatim>\<open>normalizeToolCall\<close> leaves it a text search: the extension test asks for a
  backslash in front of the extension, and a query with a backslash never reaches it.
\<close>

theorem C10_bare_filename_not_redirected:
  "isLikelyFileQuery ''package.json'' = False \<and>
   tool (normalizeToolCall \<lparr>tool = ''search'', args = [(''query'', JStr ''package.json'')]\<rparr>)
     = ''search''"
proof -
  have t: "trim ''package.json'' = ''package.json''"
    by (simp add: trim_def isSpace_def)
  have nb: "backslash \<notin> set ''package.json''"
    by (simp add: backslash_def)
  have ne: "\<not> extRegexTest ''package.json''"
    using extRegexTest_backslash nb by blast
  have f: "isLikelyFileQuery ''package.json'' = False"
    using ne by (simp add: isLikelyFileQuery_def t isSpace_def backslash_def)
  show ?thesis
    using f by (simp add: normalizeToolCall_def getArg_def strOrEmpty_def t)
qed


section \<open>Properties: diff engine\<close>

lemma commonPrefix_same: "commonPrefix xs xs = length xs"
  by (induction xs) simp_all

lemma commonSuffix_same: "commonSuffix xs xs (length xs) = 0"
  by (simp add: commonSuffix_def)

lemma midCells_same: "midCells xs xs = 0"
  by (simp add: midCells_def commonPrefix_same commonSuffix_same)

lemma backtrack_empty: "backtrack dp [] [] 0 0 = []"
  by (simp add: backtrack.simps)

lemma opType_annotate: "e \<in> set (annotate ops a b) \<Longrightarrow> opType e \<in> opType ` set ops"
proof (induction ops arbitrary: a b)
  case Nil
  then show ?case by simp
next
  case (Cons x xs)
  then show ?case by (cases "opType x") auto
qed

lemma diffEntries_same: "diffEntries xs xs = annotate (map (mkOp Context) xs) 1 1"
  by (simp add: diffEntries_def commonPrefix_same commonSuffix_same slice_def backtrack_empty)

lemma changeIndexes_same: "changeIndexes (diffEntries xs xs) = []"
proof -
  have "opType e = Context" if "e \<in> set (diffEntries xs xs)" for e
    using opType_annotate [of e "map (mkOp Context) xs" 1 1] that
    by (auto simp: diffEntries_same mkOp_def)
  then show ?thesis
    by (simp add: changeIndexes_def filter_empty_conv)
qed

text \<open>
  C6. The diff of a text with itself is the empty string, under any options: either the
  text has no lines, or every line falls into the common prefix, no entry is a change and
  the function returns before it builds a hunk.
\<close>

theorem C6_diff_idempotence: "buildUnifiedDiff x x options = []"
  by (simp add: buildUnifiedDiff_def Let_def changeIndexes_same midCells_same)


section \<open>Properties: todo merge\<close>






text \<open>
  C4 (the code at the claim's input). The current list holds "Write tests" as done and
  "Fix bug" as pending, under the positional ids \<^verbatim>\<open>todo_1\<close> and \<^verbatim>\<open>todo_2\<close>. The
  incoming list names the same two items without ids, both pending, in the other order,
  so that they receive the positional ids the other way round. The id match wins over
  the text match: "Write tests" comes out pending although it was done, and "Fix bug"
  comes out done.
\<close>

theorem C4_done_item_reverted:
  "mergeTodoLists
     [asRaw \<lparr>itemId = ''todo_1'', itemText = ''Write tests'', itemStatus = ''done''\<rparr>,
      asRaw \<lparr>itemId = ''todo_2'', itemText = ''Fix bug'', itemStatus = ''pending''\<rparr>]
     [RawObject \<lparr>rawId = JUndef, rawText = JStr ''Fix bug'', rawTitle = JUndef,
                 rawDescription = JUndef, rawStatus = JStr ''pending''\<rparr>,
      RawObject \<lparr>rawId = JUndef, rawText = JStr ''Write tests'', rawTitle = JUndef,
                 rawDescription = JUndef, rawStatus = JStr ''pending''\<rparr>]
   = [\<lparr>itemId = ''todo_1'', itemText = ''Fix bug'', itemStatus = ''done''\<rparr>,
      \<lparr>itemId = ''todo_2'', itemText = ''Write tests'', itemStatus = ''pending''\<rparr>]"
  by code_simp





section \<open>Properties: embedded-JSON scanner\<close>

text \<open>
  A brace inside a string literal without escapes is skipped: the scanner finds the
  object that follows, and the prose around it is what is left.
\<close>

lemma scanner_skips_plain_string:
  "extractToolCallsFromText
     (\<lambda>chunk. if chunk = toolCallsObject then Some [\<lparr>tool = ''read_dir'', args = []\<rparr>] else None)
     (''Say '' @ quoted ''}'' @ '' then '' @ toolCallsObject)
   = Some ([\<lparr>tool = ''read_dir'', args = []\<rparr>], ''Say '' @ quoted ''}'' @ '' then'')"
  by code_simp

text \<open>
  C1 (the code at the claim's input). The text is prose holding the string literal
  \<^verbatim>\<open>"\"}"\<close>, followed by a top-level object with a \<^verbatim>\<open>toolCalls\<close> array (or a
  \<^verbatim>\<open>todo\<close> array). The escape test never succeeds, so the escaped quote ends the
  string, the quote after the brace opens a new one, and the opening brace of the real
  object is read as string content: whatever the JSON parser accepts, no span is found
  and both functions return \<^verbatim>\<open>null\<close>.
\<close>

theorem C1_escaped_quote_hides_object:
  "extractToolCallsFromText parseCalls decoyThenToolCalls = None
   \<and> extractTodoFromText parseTodo decoyThenTodo = None"
proof
  show "extractToolCallsFromText parseCalls decoyThenToolCalls = None"
    by code_simp
  show "extractTodoFromText parseTodo decoyThenTodo = None"
    by code_simp
qed


section \<open>Properties: revert ledger and tools\<close>




























section \<open>Properties: agent loop\<close>

lemma pushUi_fields [simp]:
  "modelMessages (pushUi c s) = modelMessages s"
  "uiMessages (pushUi c s) = uiMessages s @ [assistantMsg c]"
  "chatMessages (pushUi c s) = uiMessages s @ [assistantMsg c]"
  "todos (pushUi c s) = todos s"
  "lastBareTodoSignature (pushUi c s) = lastBareTodoSignature s"
  "bareTodoRepeatCount (pushUi c s) = bareTodoRepeatCount s"
  "lastCommandSignature (pushUi c s) = lastCommandSignature s"
  "sawMutationSinceCommand (pushUi c s) = sawMutationSinceCommand s"
  "mutationSinceProblems (pushUi c s) = mutationSinceProblems s"
  "agentContinuationMessages (pushUi c s) = agentContinuationMessages s"
  "runner (pushUi c s) = runner s"
  "executed (pushUi c s) = executed s"
  by (simp_all add: pushUi_def)

lemma pushModel_fields [simp]:
  "modelMessages (pushModel env m s)
     = trimChatMessagesForModel (modelMessages s @ [m]) (getChatHistoryCharLimit env)"
  "uiMessages (pushModel env m s) = uiMessages s"
  "chatMessages (pushModel env m s) = chatMessages s"
  "todos (pushModel env m s) = todos s"
  "lastBareTodoSignature (pushModel env m s) = lastBareTodoSignature s"
  "bareTodoRepeatCount (pushModel env m s) = bareTodoRepeatCount s"
  "lastCommandSignature (pushModel env m s) = lastCommandSignature s"
  "sawMutationSinceCommand (pushModel env m s) = sawMutationSinceCommand s"
  "mutationSinceProblems (pushModel env m s) = mutationSinceProblems s"
  "agentContinuationMessages (pushModel env m s) = agentContinuationMessages s"
  "runner (pushModel env m s) = runner s"
  "executed (pushModel env m s) = executed s"
  by (simp_all add: pushModel_def)

lemma runToolCall_fields [simp]:
  "lastCommandSignature (snd (runToolCall env call s)) = lastCommandSignature s"
  "sawMutationSinceCommand (snd (runToolCall env call s)) = sawMutationSinceCommand s"
  "modelMessages (snd (runToolCall env call s)) = modelMessages s"
  "uiMessages (snd (runToolCall env call s)) = uiMessages s"
  by (simp_all add: runToolCall_def split_beta)








lemma totalChars_simps [simp]:
  "totalChars [] = 0"
  "totalChars (m # ms) = length (msgContent m) + totalChars ms"
  "totalChars (xs @ ys) = totalChars xs + totalChars ys"
  "totalChars (rev xs) = totalChars xs"
  by (simp_all add: totalChars_def rev_map [symmetric])














end
